theory Spec2Isabelle
  imports Complex_Main
begin

section \<open>Collaborators: vectors, operators, meshes, function spaces\<close>

text \<open>
  An \<^verbatim>\<open>mfem::Vector\<close> is a list of doubles. Doubles are idealised as reals: every
  statement below is about exact arithmetic, not about rounding.
\<close>

type_synonym Vector = "real list"

definition dot :: "Vector \<Rightarrow> Vector \<Rightarrow> real" where
  "dot x y = sum_list (map (\<lambda>(a, b). a * b) (zip x y))"

text \<open>
  An \<^verbatim>\<open>mfem::Operator\<close> that is a matrix (the prolongation of a finite element space):
  its height, its width and its entries.
\<close>

record Operator =
  Height :: nat
  Width :: nat
  entry :: "nat \<Rightarrow> nat \<Rightarrow> real"

definition Mult :: "Operator \<Rightarrow> Vector \<Rightarrow> Vector" where
  "Mult A x = map (\<lambda>i. sum_list (map (\<lambda>j. entry A i j * x ! j) [0..<Width A])) [0..<Height A]"

definition MultTranspose :: "Operator \<Rightarrow> Vector \<Rightarrow> Vector" where
  "MultTranspose A y = map (\<lambda>j. sum_list (map (\<lambda>i. entry A i j * y ! i) [0..<Height A])) [0..<Width A]"

record ParFiniteElementSpace =
  GetTrueVSize :: nat
  GetVSize :: nat
  Dof_TrueDof_Matrix :: Operator

definition GetProlongationMatrix :: "ParFiniteElementSpace \<Rightarrow> Operator" where
  "GetProlongationMatrix fes = Dof_TrueDof_Matrix fes"

text \<open>The element types of \<^verbatim>\<open>mfem::Element::Type\<close>, and a mesh as far as the code reads it.\<close>

datatype Element_Type =
  POINT | SEGMENT | TRIANGLE | QUADRILATERAL | TETRAHEDRON | HEXAHEDRON | WEDGE | PYRAMID

record Mesh =
  Dimension :: int
  element_types :: "Element_Type list"

definition GetNE :: "Mesh \<Rightarrow> int" where
  "GetNE mesh = int (length (element_types mesh))"

definition GetElementType :: "Mesh \<Rightarrow> int \<Rightarrow> Element_Type" where
  "GetElementType mesh e = element_types mesh ! nat e"

text \<open>The tag types \<^verbatim>\<open>H1<p, c>\<close>, \<^verbatim>\<open>Hcurl<p, c>\<close>, ... that instantiate the templates.\<close>

datatype Family = H1 | HCURL | HDIV | L2

record function_space =
  family :: Family
  order :: int
  components :: int

datatype error =
  ConfigurationError string
  | CompileError string
  | NullPointer
  | OutOfRange
  | NoReturn

section \<open>index_of_differentiation\<close>

text \<open>The types of the arguments of a call, as far as \<^verbatim>\<open>std::is_same_v\<close> tells them apart.\<close>

datatype arg_type = mfem_Vector | differentiate_wrt_this | other_type

text \<open>
  \<^verbatim>\<open>for (int i = 0; i < n; i++) { if (matching[i]) { return i; } } return -1;\<close>
\<close>

function index_of_differentiation_loop :: "bool list \<Rightarrow> int \<Rightarrow> int \<Rightarrow> int" where
  "index_of_differentiation_loop matching n i =
     (if i < n then
        (if matching ! nat i then i else index_of_differentiation_loop matching n (i + 1))
      else - 1)"
  by pat_completeness auto
termination
  by (relation "measure (\<lambda>(matching, n, i). nat (n - i))") auto

definition index_of_differentiation :: "arg_type list \<Rightarrow> int" where
  "index_of_differentiation T =
     (let n = int (length T);
          matching = map (\<lambda>t. t = differentiate_wrt_this) T
      in index_of_differentiation_loop matching n 0)"

section \<open>contains_unsupported_elements\<close>

function contains_unsupported_elements_loop :: "Mesh \<Rightarrow> int \<Rightarrow> int \<Rightarrow> bool" where
  "contains_unsupported_elements_loop mesh num_elements e =
     (if e < num_elements then
        (let type = GetElementType mesh e in
         if type = POINT \<or> type = WEDGE \<or> type = PYRAMID then True
         else contains_unsupported_elements_loop mesh num_elements (e + 1))
      else False)"
  by pat_completeness auto
termination
  by (relation "measure (\<lambda>(mesh, num_elements, e). nat (num_elements - e))") auto

definition contains_unsupported_elements :: "Mesh \<Rightarrow> bool" where
  "contains_unsupported_elements mesh =
     (let num_elements = GetNE mesh in contains_unsupported_elements_loop mesh num_elements 0)"

section \<open>Element restriction\<close>

text \<open>
  Modelled from the spec: \<^verbatim>\<open>element_restriction.hpp\<close> is not among the sources. Section
  4.2 of the specification: Gather copies, for each element and each of its local dofs,
  the local-vector entry into the element-vector slot, applying the orientation sign;
  ScatterAdd adds, for each element-local dof, the sign-corrected element-vector
  contribution into the shared local-vector entry.

  \<open>dof_info\<close> lists, per element and per element-local dof, the index of the local dof
  and its sign. A default-constructed restriction has no elements.
\<close>

record ElementRestriction =
  lsize :: nat
  dof_info :: "(nat \<times> real) list list"

definition ElementRestriction_default :: ElementRestriction where
  "ElementRestriction_default = \<lparr>lsize = 0, dof_info = []\<rparr>"

definition Gather :: "ElementRestriction \<Rightarrow> Vector \<Rightarrow> Vector" where
  "Gather G L_vector = map (\<lambda>(i, s). s * L_vector ! i) (concat (dof_info G))"

fun ScatterAdd_loop :: "(nat \<times> real) list \<Rightarrow> Vector \<Rightarrow> Vector \<Rightarrow> Vector" where
  "ScatterAdd_loop [] E_vector L_vector = L_vector"
| "ScatterAdd_loop ((i, s) # ds) [] L_vector = L_vector"
| "ScatterAdd_loop ((i, s) # ds) (x # E_vector) L_vector =
     ScatterAdd_loop ds E_vector (L_vector[i := L_vector ! i + s * x])"

definition ScatterAdd :: "ElementRestriction \<Rightarrow> Vector \<Rightarrow> Vector \<Rightarrow> Vector" where
  "ScatterAdd G E_vector L_vector = ScatterAdd_loop (concat (dof_info G)) E_vector L_vector"

section \<open>Integral\<close>

text \<open>
  Modelled from the spec: \<^verbatim>\<open>integral.hpp\<close> and the domain integral kernels are not among
  the sources. Sections 3 and 4.3 to 4.4 of the specification: an Integral binds a
  q-function, a domain, a quadrature order, the trial spaces it depends on and the
  persistent state of its quadrature points (\<open>qdata\<close>, indexed by quadrature point).
  \<open>Mult\<close> interpolates the element vectors to the quadrature points, calls the
  q-function at every point with that point's state, and integrates the outputs; the
  state a q-function has written is stored back when the update flag of the call is set.
  \<open>GradientMult\<close> applies the element Jacobian of one trial argument to a perturbation.

  The shape-function tables are a collaborator: \<open>interpolate\<close>, \<open>integrate\<close> and
  \<open>jacobian_action\<close> stand for what they compute.
\<close>

datatype Integral_type = Domain | Boundary

record 's kernels =
  interpolate :: "Vector list \<Rightarrow> int \<Rightarrow> Vector list"
  integrate :: "Vector list \<Rightarrow> Vector"
  jacobian_action :: "nat \<Rightarrow> Vector \<Rightarrow> Vector"
  q_function :: "Vector \<Rightarrow> 's \<Rightarrow> Vector \<times> 's"

record 's Integral =
  type :: Integral_type
  quadrature_order :: int
  geometry_dim :: int
  test_trial_signature :: "function_space \<times> function_space list"
  integral_domain :: Mesh
  active_trial_spaces :: "nat list"
  integral_kernels :: "'s kernels"
  qdata :: "nat \<Rightarrow> 's"

text \<open>
  \<open>NoQData\<close>, the default argument for integrals whose q-function has no state.
\<close>

definition NoQData :: "nat \<Rightarrow> unit" where
  "NoQData = (\<lambda>k. ())"

definition MakeDomainIntegral ::
  "function_space \<times> function_space list \<Rightarrow> int \<Rightarrow> int \<Rightarrow> Mesh \<Rightarrow> 's kernels \<Rightarrow> (nat \<Rightarrow> 's) \<Rightarrow>
   nat list \<Rightarrow> 's Integral" where
  "MakeDomainIntegral signature Q_order geom_dim domain integrand qpt_data args =
     \<lparr>type = Domain, quadrature_order = Q_order, geometry_dim = geom_dim,
      test_trial_signature = signature, integral_domain = domain,
      active_trial_spaces = args, integral_kernels = integrand, qdata = qpt_data\<rparr>"

definition Integral_Mult ::
  "'s Integral \<Rightarrow> Vector list \<Rightarrow> int \<Rightarrow> bool \<Rightarrow> Vector \<times> 's Integral" where
  "Integral_Mult I input_E wrt update_state =
     (let points = interpolate (integral_kernels I) input_E wrt;
          results = map (\<lambda>k. q_function (integral_kernels I) (points ! k) (qdata I k))
                        [0..<length points];
          output_E = integrate (integral_kernels I) (map fst results)
      in (output_E,
          if update_state then
            I\<lparr>qdata := (\<lambda>k. if k < length points then snd (results ! k) else qdata I k)\<rparr>
          else I))"

definition Integral_GradientMult :: "'s Integral \<Rightarrow> Vector \<Rightarrow> nat \<Rightarrow> Vector" where
  "Integral_GradientMult I input_E which = jacobian_action (integral_kernels I) which input_E"

section \<open>Functional\<close>

text \<open>
  The lookup tables of \<^verbatim>\<open>dof_numbering.hpp\<close> (not among the sources), as far as
  \<^verbatim>\<open>Gradient::assemble\<close> reads them: the number of nonzeros and the pattern of the sparse
  matrix in compressed-row form.
\<close>

record GradientAssemblyLookupTables =
  nnz :: nat
  row_ptr :: "nat list"
  col_ind :: "nat list"

text \<open>
  A \<^verbatim>\<open>Gradient\<close> holds a reference \<^verbatim>\<open>form_\<close> to its Functional; the model passes the
  Functional to each of its operations instead.
\<close>

record Gradient =
  lookup_tables :: GradientAssemblyLookupTables
  col_ind_copy :: "nat list"
  which_argument :: nat
  gradient_test_space :: ParFiniteElementSpace
  gradient_trial_space :: ParFiniteElementSpace

text \<open>
  The members of \<^verbatim>\<open>Functional<test(trials...), exec>\<close> that live code reads or writes. The
  template arguments \<open>test\<close> and \<open>trials\<close> are fields as well. \<open>gathers\<close> is a ghost field:
  the Gather calls of the evaluation in progress, in order. A member \<^verbatim>\<open>name_\<close> of the
  source is the field \<open>name\<close> here.
\<close>

record 's Functional =
  test :: function_space
  trials :: "function_space list"
  update_qdata :: bool
  input_L :: "Vector list"
  output_L :: Vector
  block_input_E :: "Integral_type \<Rightarrow> Vector list"
  block_output_E :: "Integral_type \<Rightarrow> Vector"
  output_T :: Vector
  test_space :: ParFiniteElementSpace
  trial_space :: "ParFiniteElementSpace list"
  P_test :: "Operator option"
  G_test :: ElementRestriction
  P_trial :: "Operator option list"
  G_trial :: "ElementRestriction list"
  integrals :: "'s Integral list"
  grad :: "Gradient list"
  gathers :: "(Integral_type \<times> nat) list"

definition num_trial_spaces :: "'s Functional \<Rightarrow> nat" where
  "num_trial_spaces f = length (trials f)"

text \<open>\<^verbatim>\<open>Q = std::max({test::order, trials::order...}) + 1\<close>\<close>

definition Q :: "function_space \<Rightarrow> function_space list \<Rightarrow> int" where
  "Q test_tag trial_tags = foldl max (order test_tag) (map order trial_tags) + 1"

text \<open>
  The constructor. Its body is disabled by \<^verbatim>\<open>#if 0\<close> but for the first statement, so the
  prolongations of the trial spaces stay unset (\<open>None\<close>), the vectors are empty, and no
  Gradient is created.
\<close>

definition Functional_ctor ::
  "function_space \<Rightarrow> function_space list \<Rightarrow> ParFiniteElementSpace \<Rightarrow>
   ParFiniteElementSpace list \<Rightarrow> 's Functional" where
  "Functional_ctor test_tag trial_tags test_fes trial_fes =
     \<lparr>test = test_tag, trials = trial_tags, update_qdata = False,
      input_L = replicate (length trial_tags) [], output_L = [],
      block_input_E = (\<lambda>t. []), block_output_E = (\<lambda>t. []), output_T = [],
      test_space = test_fes, trial_space = trial_fes,
      P_test = Some (GetProlongationMatrix test_fes),
      G_test = ElementRestriction_default,
      P_trial = replicate (length trial_tags) None,
      G_trial = replicate (length trial_tags) ElementRestriction_default,
      integrals = [], grad = [], gathers = []\<rparr>"

text \<open>
  \<^verbatim>\<open>AddDomainIntegral(Dimension<dim>, DependsOn<args...>, integrand, domain, qdata)\<close>.
  \<^verbatim>\<open>serac::type<args>(trial_spaces)\<close> does not compile for an index that is not one of a
  trial space. Modelled from the spec: the macro \<^verbatim>\<open>SLIC_ERROR_ROOT_IF\<close> is not among the
  sources; by section 7 of the specification a configuration error ends the call.
\<close>

definition AddDomainIntegral ::
  "int \<Rightarrow> nat list \<Rightarrow> 's kernels \<Rightarrow> Mesh \<Rightarrow> (nat \<Rightarrow> 's) \<Rightarrow> 's Functional \<Rightarrow>
   error + 's Functional" where
  "AddDomainIntegral geom_dim args integrand domain qpt_data f =
     (if \<exists>a \<in> set args. num_trial_spaces f \<le> a then
        Inl (CompileError ''no trial space with this index'')
      else if GetNE domain = 0 then Inr f
      else if geom_dim \<noteq> Dimension domain then
        Inl (ConfigurationError ''invalid mesh dimension for domain integral'')
      else if contains_unsupported_elements domain then
        Inl (ConfigurationError ''Mesh contains unsupported element type'')
      else
        Inr (f\<lparr>integrals := integrals f @
               [MakeDomainIntegral (test f, map (\<lambda>a. trials f ! a) args) (Q (test f) (trials f))
                  geom_dim domain integrand qpt_data args]\<rparr>))"

text \<open>\<^verbatim>\<open>AddAreaIntegral\<close> and \<^verbatim>\<open>AddVolumeIntegral\<close> fix the dimension.\<close>

definition AddAreaIntegral ::
  "nat list \<Rightarrow> 's kernels \<Rightarrow> Mesh \<Rightarrow> (nat \<Rightarrow> 's) \<Rightarrow> 's Functional \<Rightarrow> error + 's Functional" where
  "AddAreaIntegral which_args integrand domain data f =
     AddDomainIntegral 2 which_args integrand domain data f"

definition AddVolumeIntegral ::
  "nat list \<Rightarrow> 's kernels \<Rightarrow> Mesh \<Rightarrow> (nat \<Rightarrow> 's) \<Rightarrow> 's Functional \<Rightarrow> error + 's Functional" where
  "AddVolumeIntegral which_args integrand domain data f =
     AddDomainIntegral 3 which_args integrand domain data f"

section \<open>Evaluation: operator()\<close>

text \<open>
  The inner loop of \<^verbatim>\<open>operator()\<close>: for each active trial space of an integral, gather
  its local vector unless the flag of (type, space) is set, and set the flag.
\<close>

fun gather_loop ::
  "Integral_type \<Rightarrow> nat list \<Rightarrow> (Integral_type \<Rightarrow> bool list) \<Rightarrow> 's Functional \<Rightarrow>
   (Integral_type \<Rightarrow> bool list) \<times> 's Functional" where
  "gather_loop t [] already_computed f = (already_computed, f)"
| "gather_loop t (i # rest) already_computed f =
     (if \<not> already_computed t ! i then
        gather_loop t rest
          (already_computed(t := (already_computed t)[i := True]))
          (f\<lparr>block_input_E := (block_input_E f)
                (t := (block_input_E f t)[i := Gather (G_trial f ! i) (input_L f ! i)]),
             gathers := gathers f @ [(t, i)]\<rparr>)
      else gather_loop t rest already_computed f)"

text \<open>
  The loop over \<^verbatim>\<open>integrals_\<close>: gather, \<^verbatim>\<open>integral.Mult\<close>, scatter-add. It returns the
  integrals as the calls of \<^verbatim>\<open>Mult\<close> leave them, and the Functional.
\<close>

fun integrals_loop ::
  "int \<Rightarrow> 's Integral list \<Rightarrow> (Integral_type \<Rightarrow> bool list) \<Rightarrow> 's Functional \<Rightarrow>
   's Integral list \<times> 's Functional" where
  "integrals_loop wrt [] already_computed f = ([], f)"
| "integrals_loop wrt (integral # rest) already_computed f =
     (let (already_computed', f1) =
            gather_loop (type integral) (active_trial_spaces integral) already_computed f;
          (output_E, integral') =
            Integral_Mult integral (block_input_E f1 (type integral)) wrt (update_qdata f1);
          f2 = f1\<lparr>block_output_E := (block_output_E f1)(type integral := output_E)\<rparr>;
          f3 = f2\<lparr>output_L := ScatterAdd (G_test f2) (block_output_E f2 (type integral))
                                 (output_L f2)\<rparr>;
          (rest', f4) = integrals_loop wrt rest already_computed' f3
      in (integral' # rest', f4))"

text \<open>
  The subscripts the loops use: \<^verbatim>\<open>already_computed[type][i]\<close>, \<^verbatim>\<open>G_trial_[i]\<close>,
  \<^verbatim>\<open>input_L_[i]\<close> (arrays of \<^verbatim>\<open>num_trial_spaces\<close> entries) and
  \<^verbatim>\<open>block_input_E_[type][i]\<close> (a \<^verbatim>\<open>std::vector\<close>). C++ leaves a subscript out of range
  undefined; the model ends the call with \<open>OutOfRange\<close>, and a call through an unset
  pointer with \<open>NullPointer\<close>.
\<close>

definition subscripts_in_range :: "'s Functional \<Rightarrow> bool" where
  "subscripts_in_range f =
     (\<forall>I \<in> set (integrals f). \<forall>i \<in> set (active_trial_spaces I).
        i < num_trial_spaces f \<and> i < length (block_input_E f (type I)))"

text \<open>
  \<^verbatim>\<open>operator()(DifferentiateWRT<wrt>, const T&... args)\<close>. The result is the Functional
  after the call, the value \<^verbatim>\<open>output_T_\<close> and, for \<open>wrt \<ge> 0\<close>, the gradient
  \<^verbatim>\<open>grad_[wrt]\<close>. For \<open>wrt < -1\<close> neither \<^verbatim>\<open>if constexpr\<close> returns.
\<close>

definition operator_paren ::
  "int \<Rightarrow> Vector list \<Rightarrow> 's Functional \<Rightarrow> error + 's Functional \<times> Vector \<times> Gradient option" where
  "operator_paren wrt args f =
     (let n = num_trial_spaces f in
      if length args < n then Inl OutOfRange
      else if length (P_trial f) < n \<or> list_ex Option.is_none (take n (P_trial f)) then
        Inl NullPointer
      else if \<not> subscripts_in_range f then Inl OutOfRange
      else case P_test f of
        None \<Rightarrow> Inl NullPointer
      | Some P \<Rightarrow>
          (let f1 = f\<lparr>input_L := map (\<lambda>i. Mult (the (P_trial f ! i)) (args ! i)) [0..<n],
                      output_L := map (\<lambda>x. 0) (output_L f),
                      gathers := []\<rparr>;
               already_computed = (\<lambda>t. replicate n False);
               (integrals', f2) = integrals_loop wrt (integrals f1) already_computed f1;
               f3 = f2\<lparr>integrals := integrals', output_T := MultTranspose P (output_L f2)\<rparr>
           in if 0 \<le> wrt then
                (if nat wrt < length (grad f3) then Inr (f3, output_T f3, Some (grad f3 ! nat wrt))
                 else Inl OutOfRange)
              else if wrt = - 1 then Inr (f3, output_T f3, None)
              else Inl NoReturn))"

text \<open>
  The variadic overload. An argument is an \<^verbatim>\<open>mfem::Vector\<close> or the wrapper
  \<^verbatim>\<open>differentiate_wrt_this\<close> that \<^verbatim>\<open>differentiate_wrt\<close> returns. The fold expression
  \<^verbatim>\<open>(std::is_same_v<T, differentiate_wrt_this> + ...)\<close> does not compile for an empty
  pack, and a \<^verbatim>\<open>static_assert\<close> that fails ends compilation.
\<close>

datatype argument = plain_Vector Vector | differentiate_wrt Vector

fun type_of_argument :: "argument \<Rightarrow> arg_type" where
  "type_of_argument (plain_Vector v) = mfem_Vector"
| "type_of_argument (differentiate_wrt v) = differentiate_wrt_this"

fun to_Vector :: "argument \<Rightarrow> Vector" where
  "to_Vector (plain_Vector v) = v"
| "to_Vector (differentiate_wrt v) = v"

definition operator_paren_variadic ::
  "argument list \<Rightarrow> 's Functional \<Rightarrow> error + 's Functional \<times> Vector \<times> Gradient option" where
  "operator_paren_variadic args f =
     (let T = map type_of_argument args in
      if T = [] then Inl (CompileError ''fold expression over an empty pack'')
      else
        (let num_differentiated_arguments =
               sum_list (map (\<lambda>t. if t = differentiate_wrt_this then (1::int) else 0) T)
         in if \<not> num_differentiated_arguments \<le> 1 then
              Inl (CompileError
                ''Error: Functional::operator() can only differentiate w.r.t. 1 argument a time'')
            else if int (length T) \<noteq> int (num_trial_spaces f) then
              Inl (CompileError
                ''Error: Functional::operator() must take exactly as many arguments as trial spaces'')
            else
              (let i = index_of_differentiation T
               in operator_paren i (map to_Vector args) f)))"

section \<open>Gradient\<close>

text \<open>
  The loop of \<^verbatim>\<open>ActionOfGradient\<close>: one flag per integral type, the gather of the trial
  space \<open>which\<close>, \<^verbatim>\<open>integral.GradientMult\<close>, scatter-add.
\<close>

fun gradient_loop ::
  "nat \<Rightarrow> 's Integral list \<Rightarrow> (Integral_type \<Rightarrow> bool) \<Rightarrow> 's Functional \<Rightarrow> 's Functional" where
  "gradient_loop which [] already_computed f = f"
| "gradient_loop which (integral # rest) already_computed f =
     (let t = type integral;
          f1 = (if \<not> already_computed t then
                  f\<lparr>block_input_E := (block_input_E f)
                       (t := (block_input_E f t)
                          [which := Gather (G_trial f ! which) (input_L f ! which)]),
                    gathers := gathers f @ [(t, which)]\<rparr>
                else f);
          already_computed' = (if \<not> already_computed t then already_computed(t := True)
                               else already_computed);
          f2 = f1\<lparr>block_output_E := (block_output_E f1)
                    (t := Integral_GradientMult integral (block_input_E f1 t ! which) which)\<rparr>;
          f3 = f2\<lparr>output_L := ScatterAdd (G_test f2) (block_output_E f2 t) (output_L f2)\<rparr>
      in gradient_loop which rest already_computed' f3)"

definition ActionOfGradient ::
  "Vector \<Rightarrow> nat \<Rightarrow> 's Functional \<Rightarrow> error + 's Functional \<times> Vector" where
  "ActionOfGradient input_T which f =
     (if num_trial_spaces f \<le> which \<or> length (P_trial f) \<le> which then Inl OutOfRange
      else case P_trial f ! which of
        None \<Rightarrow> Inl NullPointer
      | Some P \<Rightarrow>
          if \<exists>I \<in> set (integrals f). length (block_input_E f (type I)) \<le> which then
            Inl OutOfRange
          else case P_test f of
            None \<Rightarrow> Inl NullPointer
          | Some Pt \<Rightarrow>
              (let f1 = f\<lparr>input_L := (input_L f)[which := Mult P input_T],
                          output_L := map (\<lambda>x. 0) (output_L f),
                          gathers := []\<rparr>;
                   f2 = gradient_loop which (integrals f1) (\<lambda>t. False) f1
               in Inr (f2, MultTranspose Pt (output_L f2))))"

text \<open>
  The constructor of \<^verbatim>\<open>Gradient\<close>; \<open>make_tables\<close> stands for the constructor of the lookup
  tables. \<^verbatim>\<open>Gradient::Mult(dx, df)\<close> is \<^verbatim>\<open>form_.ActionOfGradient(dx, df, which_argument)\<close>.
\<close>

definition Gradient_ctor ::
  "(ParFiniteElementSpace \<Rightarrow> ParFiniteElementSpace \<Rightarrow> GradientAssemblyLookupTables) \<Rightarrow>
   's Functional \<Rightarrow> nat \<Rightarrow> Gradient" where
  "Gradient_ctor make_tables f which =
     \<lparr>lookup_tables = make_tables (test_space f) (trial_space f ! which),
      col_ind_copy = [],
      which_argument = which,
      gradient_test_space = test_space f,
      gradient_trial_space = trial_space f ! which\<rparr>"

definition Gradient_Mult ::
  "Gradient \<Rightarrow> Vector \<Rightarrow> 's Functional \<Rightarrow> error + 's Functional \<times> Vector" where
  "Gradient_Mult g dx f = ActionOfGradient dx (which_argument g) f"

text \<open>
  An \<^verbatim>\<open>mfem::SparseMatrix\<close> in compressed-row form, with the entry in row \<open>r\<close> and
  column \<open>c\<close> of the matrix it stores; the triple product \<^verbatim>\<open>mfem::RAP(R, A, P)\<close>, the
  matrix \<open>R\<^sup>T A P\<close>. The \<^verbatim>\<open>HypreParMatrix\<close> built from the local matrix is that matrix
  on one rank.
\<close>

record SparseMatrix =
  GetI :: "nat list"
  GetJ :: "nat list"
  GetData :: Vector
  NumRows :: nat
  NumCols :: nat

definition SparseMatrix_entry :: "SparseMatrix \<Rightarrow> nat \<Rightarrow> nat \<Rightarrow> real" where
  "SparseMatrix_entry M r c =
     sum_list (map (\<lambda>k. if GetJ M ! k = c then GetData M ! k else 0)
                   [GetI M ! r ..< GetI M ! (r + 1)])"

definition RAP :: "Operator \<Rightarrow> SparseMatrix \<Rightarrow> Operator \<Rightarrow> Operator" where
  "RAP R A P =
     \<lparr>Height = Width R, Width = Width P,
      entry = (\<lambda>i j. sum_list (map (\<lambda>a. sum_list (map (\<lambda>b.
                 entry R a i * SparseMatrix_entry A a b * entry P b j) [0..<NumCols A]))
                 [0..<NumRows A]))\<rparr>"

text \<open>
  \<^verbatim>\<open>Gradient::assemble\<close>. The loops that add the element matrices to \<^verbatim>\<open>values\<close> are
  commented out in the source: \<^verbatim>\<open>values\<close> is the zero-initialised array.
\<close>

definition assemble :: "Gradient \<Rightarrow> 's Functional \<Rightarrow> Gradient \<times> Operator" where
  "assemble g form =
     (let values = replicate (nnz (lookup_tables g)) 0;
          g' = g\<lparr>col_ind_copy := col_ind (lookup_tables g)\<rparr>;
          J_local = \<lparr>GetI = row_ptr (lookup_tables g'), GetJ = col_ind_copy g', GetData = values,
                     NumRows = length (output_L form),
                     NumCols = length (input_L form ! which_argument g')\<rparr>;
          R = Dof_TrueDof_Matrix (test_space form);
          A = J_local;
          P = Dof_TrueDof_Matrix (gradient_trial_space g');
          K = RAP R A P
      in (g', K))"

section \<open>Concrete inputs\<close>

text \<open>
  A serial run on one element with one dof: the prolongation is the identity, the
  q-function returns the interpolated value, the element Jacobian is the identity.
\<close>

definition example_tag :: function_space where
  "example_tag = \<lparr>family = H1, order = 1, components = 1\<rparr>"

definition identity_operator :: "nat \<Rightarrow> Operator" where
  "identity_operator n = \<lparr>Height = n, Width = n, entry = (\<lambda>i j. if i = j then 1 else 0)\<rparr>"

definition example_fes :: ParFiniteElementSpace where
  "example_fes = \<lparr>GetTrueVSize = 1, GetVSize = 1, Dof_TrueDof_Matrix = identity_operator 1\<rparr>"

definition example_kernels :: "unit kernels" where
  "example_kernels =
     \<lparr>interpolate = (\<lambda>input_E wrt. input_E),
      integrate = (\<lambda>outputs. [sum_list (concat outputs)]),
      jacobian_action = (\<lambda>which dx. dx), q_function = (\<lambda>x state. (x, state))\<rparr>"

definition constructed :: "unit Functional" where
  "constructed = Functional_ctor example_tag [example_tag] example_fes [example_fes]"

definition empty_mesh :: Mesh where
  "empty_mesh = \<lparr>Dimension = 2, element_types = []\<rparr>"

definition quad_mesh :: Mesh where
  "quad_mesh = \<lparr>Dimension = 2, element_types = [QUADRILATERAL, QUADRILATERAL]\<rparr>"

definition wedge_mesh :: Mesh where
  "wedge_mesh = \<lparr>Dimension = 3, element_types = [HEXAHEDRON, WEDGE]\<rparr>"

definition two_segments :: ElementRestriction where
  "two_segments = \<lparr>lsize = 3, dof_info = [[(0, 1), (1, 1)], [(1, - 1), (2, 1)]]\<rparr>"

definition segment_mesh :: Mesh where
  "segment_mesh = \<lparr>Dimension = 1, element_types = [SEGMENT]\<rparr>"

definition one_dof :: ElementRestriction where
  "one_dof = \<lparr>lsize = 1, dof_info = [[(0, 1)]]\<rparr>"

definition one_dof_gradient :: Gradient where
  "one_dof_gradient =
     \<lparr>lookup_tables = \<lparr>nnz = 1, row_ptr = [0, 1], col_ind = [0]\<rparr>,
      col_ind_copy = [], which_argument = 0,
      gradient_test_space = example_fes, gradient_trial_space = example_fes\<rparr>"

text \<open>
  A Functional as the disabled constructor body would set it up: one trial space, the
  buffers sized, the prolongations set, one Gradient, and one domain integral.
\<close>

definition one_dof_functional :: "'s kernels \<Rightarrow> (nat \<Rightarrow> 's) \<Rightarrow> 's Functional" where
  "one_dof_functional integrand qpt_data =
     \<lparr>test = example_tag, trials = [example_tag], update_qdata = False,
      input_L = [[0]], output_L = [0],
      block_input_E = (\<lambda>t. [[0]]), block_output_E = (\<lambda>t. [0]), output_T = [0],
      test_space = example_fes, trial_space = [example_fes],
      P_test = Some (identity_operator 1), G_test = one_dof,
      P_trial = [Some (identity_operator 1)], G_trial = [one_dof],
      integrals = [MakeDomainIntegral (example_tag, [example_tag]) 2 1 segment_mesh
                     integrand qpt_data [0]],
      grad = [one_dof_gradient], gathers = []\<rparr>"

section \<open>The loops of the free functions\<close>

declare index_of_differentiation_loop.simps [simp del]
declare contains_unsupported_elements_loop.simps [simp del]

lemma index_loop_none:
  "(\<forall>j. i \<le> j \<and> j < n \<longrightarrow> \<not> m ! nat j) \<Longrightarrow> index_of_differentiation_loop m n i = - 1"
proof (induction m n i rule: index_of_differentiation_loop.induct)
  case (1 matching n i)
  show ?case
  proof (cases "i < n")
    case False
    then show ?thesis by (subst index_of_differentiation_loop.simps) simp
  next
    case True
    with "1.prems" have no: "\<not> matching ! nat i" by simp
    have "\<forall>j. i + 1 \<le> j \<and> j < n \<longrightarrow> \<not> matching ! nat j" using "1.prems" by simp
    with "1.IH"[OF True no] have "index_of_differentiation_loop matching n (i + 1) = - 1" .
    with True no show ?thesis by (subst index_of_differentiation_loop.simps) simp
  qed
qed

lemma index_loop_first:
  "i \<le> k \<Longrightarrow> k < n \<Longrightarrow> m ! nat k \<Longrightarrow> (\<forall>j. i \<le> j \<and> j < k \<longrightarrow> \<not> m ! nat j) \<Longrightarrow>
   index_of_differentiation_loop m n i = k"
proof (induction m n i rule: index_of_differentiation_loop.induct)
  case (1 matching n i)
  have lt: "i < n" using "1.prems" by simp
  show ?case
  proof (cases "matching ! nat i")
    case True
    have "\<not> i < k" using True "1.prems"(4) by auto
    with "1.prems"(1) have "i = k" by simp
    with lt True show ?thesis by (subst index_of_differentiation_loop.simps) simp
  next
    case False
    with "1.prems" have "i \<noteq> k" by auto
    with "1.prems" have le: "i + 1 \<le> k" by simp
    have "\<forall>j. i + 1 \<le> j \<and> j < k \<longrightarrow> \<not> matching ! nat j" using "1.prems" by simp
    with "1.IH"[OF lt False le "1.prems"(2,3)]
    have "index_of_differentiation_loop matching n (i + 1) = k" .
    with lt False show ?thesis by (subst index_of_differentiation_loop.simps) simp
  qed
qed

lemma index_of_differentiation_absent:
  assumes "differentiate_wrt_this \<notin> set T"
  shows "index_of_differentiation T = - 1"
proof -
  let ?m = "map (\<lambda>t. t = differentiate_wrt_this) T"
  have "\<forall>j. 0 \<le> j \<and> j < int (length T) \<longrightarrow> \<not> ?m ! nat j"
    using assms by (auto simp: in_set_conv_nth)
  then show ?thesis
    unfolding index_of_differentiation_def Let_def by (intro index_loop_none) simp
qed

lemma index_of_differentiation_at:
  assumes k: "k < length T" "T ! k = differentiate_wrt_this"
    and first: "\<forall>j < k. T ! j \<noteq> differentiate_wrt_this"
  shows "index_of_differentiation T = int k"
proof -
  let ?m = "map (\<lambda>t. t = differentiate_wrt_this) T"
  have a: "(0::int) \<le> int k" "int k < int (length T)" "?m ! nat (int k)" using k by simp_all
  have b: "\<forall>j. 0 \<le> j \<and> j < int k \<longrightarrow> \<not> ?m ! nat j"
  proof (intro allI impI)
    fix j :: int assume j: "0 \<le> j \<and> j < int k"
    then have "nat j < k" by linarith
    with first k(1) show "\<not> ?m ! nat j" by simp
  qed
  show ?thesis
    unfolding index_of_differentiation_def Let_def
    using index_loop_first[OF a(1) a(2) a(3) b] .
qed

lemma index_of_differentiation_present:
  assumes "differentiate_wrt_this \<in> set T"
  shows "\<exists>k < length T. index_of_differentiation T = int k \<and> T ! k = differentiate_wrt_this \<and>
         (\<forall>j < k. T ! j \<noteq> differentiate_wrt_this)"
proof -
  let ?P = "\<lambda>k. k < length T \<and> T ! k = differentiate_wrt_this"
  from assms have ex: "\<exists>k. ?P k" by (auto simp: in_set_conv_nth)
  let ?k = "LEAST k. ?P k"
  have k: "?P ?k" using ex by (rule LeastI_ex)
  have first: "\<forall>j < ?k. T ! j \<noteq> differentiate_wrt_this"
  proof (intro allI impI)
    fix j assume j: "j < ?k"
    then have "\<not> ?P j" by (rule not_less_Least)
    moreover have "j < length T" using j k by simp
    ultimately show "T ! j \<noteq> differentiate_wrt_this" by simp
  qed
  from index_of_differentiation_at[OF conjunct1[OF k] conjunct2[OF k] first] k first
  show ?thesis by blast
qed

lemma num_differentiated_count:
  "sum_list (map (\<lambda>t. if t = differentiate_wrt_this then (1::int) else 0) T) =
   int (count_list T differentiate_wrt_this)"
  by (induction T) auto

lemma unsupported_loop_char:
  "0 \<le> e \<Longrightarrow> n = int (length (element_types mesh)) \<Longrightarrow>
   contains_unsupported_elements_loop mesh n e =
   (\<exists>j. nat e \<le> j \<and> j < length (element_types mesh) \<and> element_types mesh ! j \<in> {POINT, WEDGE, PYRAMID})"
proof (induction mesh n e rule: contains_unsupported_elements_loop.induct)
  case (1 mesh num_elements e)
  let ?ts = "element_types mesh"
  have unfold: "contains_unsupported_elements_loop mesh num_elements e =
     (if e < num_elements then
        (if ?ts ! nat e \<in> {POINT, WEDGE, PYRAMID} then True
         else contains_unsupported_elements_loop mesh num_elements (e + 1))
      else False)"
    by (subst contains_unsupported_elements_loop.simps)
       (simp add: Let_def GetElementType_def)
  show ?case
  proof (cases "e < num_elements")
    case False
    with "1.prems" have "\<not> (\<exists>j. nat e \<le> j \<and> j < length ?ts \<and> ?ts ! j \<in> {POINT, WEDGE, PYRAMID})"
      by auto
    with False unfold show ?thesis by simp
  next
    case lt: True
    show ?thesis
    proof (cases "?ts ! nat e \<in> {POINT, WEDGE, PYRAMID}")
      case True
      have "nat e < length ?ts" using lt "1.prems" by simp
      with True have "\<exists>j. nat e \<le> j \<and> j < length ?ts \<and> ?ts ! j \<in> {POINT, WEDGE, PYRAMID}" by blast
      with lt True unfold show ?thesis by simp
    next
      case False
      have nb: "\<not> (GetElementType mesh e = POINT \<or> GetElementType mesh e = WEDGE \<or>
                   GetElementType mesh e = PYRAMID)"
        using False by (simp add: GetElementType_def)
      have e1: "0 \<le> e + 1" using "1.prems"(1) by simp
      have IH: "contains_unsupported_elements_loop mesh num_elements (e + 1) =
            (\<exists>j. nat (e + 1) \<le> j \<and> j < length ?ts \<and> ?ts ! j \<in> {POINT, WEDGE, PYRAMID})"
        by (rule "1.IH"[where x = "GetElementType mesh e", OF lt refl nb e1 "1.prems"(2)])
      have "(\<exists>j. nat (e + 1) \<le> j \<and> j < length ?ts \<and> ?ts ! j \<in> {POINT, WEDGE, PYRAMID}) =
            (\<exists>j. nat e \<le> j \<and> j < length ?ts \<and> ?ts ! j \<in> {POINT, WEDGE, PYRAMID})"
      proof
        assume "\<exists>j. nat (e + 1) \<le> j \<and> j < length ?ts \<and> ?ts ! j \<in> {POINT, WEDGE, PYRAMID}"
        then obtain j where j: "nat (e + 1) \<le> j" "j < length ?ts" "?ts ! j \<in> {POINT, WEDGE, PYRAMID}"
          by blast
        from j(1) have "nat e \<le> j" by linarith
        with j show "\<exists>j. nat e \<le> j \<and> j < length ?ts \<and> ?ts ! j \<in> {POINT, WEDGE, PYRAMID}" by blast
      next
        assume "\<exists>j. nat e \<le> j \<and> j < length ?ts \<and> ?ts ! j \<in> {POINT, WEDGE, PYRAMID}"
        then obtain j where j: "nat e \<le> j" "j < length ?ts" "?ts ! j \<in> {POINT, WEDGE, PYRAMID}" by blast
        from j(3) False have "j \<noteq> nat e" by auto
        with j(1) "1.prems"(1) have "nat (e + 1) \<le> j" by linarith
        with j show "\<exists>j. nat (e + 1) \<le> j \<and> j < length ?ts \<and> ?ts ! j \<in> {POINT, WEDGE, PYRAMID}" by blast
      qed
      with IH lt False unfold show ?thesis by simp
    qed
  qed
qed

lemma contains_unsupported_elements_iff:
  "contains_unsupported_elements mesh =
   (\<exists>t \<in> set (element_types mesh). t = POINT \<or> t = WEDGE \<or> t = PYRAMID)"
proof -
  have "contains_unsupported_elements_loop mesh (int (length (element_types mesh))) 0 =
        (\<exists>j. nat 0 \<le> j \<and> j < length (element_types mesh) \<and>
             element_types mesh ! j \<in> {POINT, WEDGE, PYRAMID})"
    by (rule unsupported_loop_char) simp_all
  then have "contains_unsupported_elements mesh =
        (\<exists>j < length (element_types mesh). element_types mesh ! j \<in> {POINT, WEDGE, PYRAMID})"
    by (simp add: contains_unsupported_elements_def Let_def GetNE_def)
  also have "\<dots> = (\<exists>t \<in> set (element_types mesh). t \<in> {POINT, WEDGE, PYRAMID})"
    by (metis in_set_conv_nth)
  finally show ?thesis by simp
qed

lemma foldl_max_fold: "foldl max (a::int) xs = fold max xs a"
  by (induction xs arbitrary: a) (simp_all add: max.commute)

lemma Q_is_Max: "Q t ts = Max (set (order t # map order ts)) + 1"
  by (simp only: Q_def foldl_max_fold Max.set_eq_fold)

lemma num_differentiated_count_comp:
  "sum_list (map ((\<lambda>t. if t = differentiate_wrt_this then (1::int) else 0) \<circ> g) xs) =
   int (count_list (map g xs) differentiate_wrt_this)"
  using num_differentiated_count[of "map g xs"] by (simp only: map_map)

section \<open>Selecting the argument of differentiation\<close>

text \<open>
  Claim C9. \<open>index_of_differentiation\<close> returns the smallest index at which the type
  \<open>differentiate_wrt_this\<close> stands in the list of argument types, and \<open>-1\<close> when it stands
  nowhere. The variadic \<open>operator()\<close> does not compile with more than one such argument
  or with a number of arguments other than the number of trial spaces; otherwise it
  calls the two-parameter \<open>operator()\<close> with that index.
\<close>

theorem index_of_differentiation_selects_first:
  "(differentiate_wrt_this \<notin> set T \<longrightarrow> index_of_differentiation T = - 1) \<and>
   (differentiate_wrt_this \<in> set T \<longrightarrow>
      (\<exists>k < length T. index_of_differentiation T = int k \<and> T ! k = differentiate_wrt_this \<and>
         (\<forall>j < k. T ! j \<noteq> differentiate_wrt_this))) \<and>
   (1 < count_list (map type_of_argument args) differentiate_wrt_this \<longrightarrow>
      (\<exists>msg. operator_paren_variadic args f = Inl (CompileError msg))) \<and>
   (length args \<noteq> num_trial_spaces f \<longrightarrow>
      (\<exists>msg. operator_paren_variadic args f = Inl (CompileError msg))) \<and>
   (args \<noteq> [] \<and> count_list (map type_of_argument args) differentiate_wrt_this \<le> 1 \<and>
    length args = num_trial_spaces f \<longrightarrow>
      operator_paren_variadic args f =
      operator_paren (index_of_differentiation (map type_of_argument args))
        (map to_Vector args) f)"
proof (intro conjI impI)
  assume "differentiate_wrt_this \<notin> set T"
  then show "index_of_differentiation T = - 1" by (rule index_of_differentiation_absent)
next
  assume "differentiate_wrt_this \<in> set T"
  then show "\<exists>k < length T. index_of_differentiation T = int k \<and> T ! k = differentiate_wrt_this \<and>
         (\<forall>j < k. T ! j \<noteq> differentiate_wrt_this)"
    by (rule index_of_differentiation_present)
next
  assume "1 < count_list (map type_of_argument args) differentiate_wrt_this"
  then show "\<exists>msg. operator_paren_variadic args f = Inl (CompileError msg)"
    by (simp add: operator_paren_variadic_def Let_def num_differentiated_count_comp)
next
  assume "length args \<noteq> num_trial_spaces f"
  then show "\<exists>msg. operator_paren_variadic args f = Inl (CompileError msg)"
    by (simp add: operator_paren_variadic_def Let_def)
next
  assume "args \<noteq> [] \<and> count_list (map type_of_argument args) differentiate_wrt_this \<le> 1 \<and>
    length args = num_trial_spaces f"
  then show "operator_paren_variadic args f =
      operator_paren (index_of_differentiation (map type_of_argument args))
        (map to_Vector args) f"
    by (simp add: operator_paren_variadic_def Let_def num_differentiated_count_comp)
qed

lemma num_trial_spaces_constructed: "num_trial_spaces constructed = 1"
  by (simp add: constructed_def Functional_ctor_def num_trial_spaces_def)

text \<open>
  The example of the source's comment (the wrapper third of five types, index 2), a list
  without the wrapper, a call with two wrapped arguments for one trial space, and a call
  with one.
\<close>

theorem index_of_differentiation_selects_first_witness:
  "index_of_differentiation
     [other_type, other_type, differentiate_wrt_this, other_type, differentiate_wrt_this] = 2 \<and>
   index_of_differentiation [mfem_Vector, other_type] = - 1 \<and>
   (\<exists>msg. operator_paren_variadic [differentiate_wrt [1], differentiate_wrt [2]] constructed =
      Inl (CompileError msg)) \<and>
   operator_paren_variadic [differentiate_wrt [1]] constructed =
     operator_paren 0 [[1]] constructed"
proof -
  let ?T = "[other_type, other_type, differentiate_wrt_this, other_type, differentiate_wrt_this]"
  note inst1 = index_of_differentiation_selects_first
      [of ?T "[differentiate_wrt [1], differentiate_wrt [2]]" constructed]
  note inst2 = index_of_differentiation_selects_first
      [of "[mfem_Vector, other_type]" "[differentiate_wrt [1]]" constructed]
  have "differentiate_wrt_this \<in> set ?T" by simp
  with inst1 obtain k where k: "k < length ?T" "index_of_differentiation ?T = int k"
      "?T ! k = differentiate_wrt_this" "\<forall>j < k. ?T ! j \<noteq> differentiate_wrt_this"
    by blast
  have "k = 2"
  proof (rule ccontr)
    assume ne: "k \<noteq> 2"
    from k(1) have "k = 0 \<or> k = 1 \<or> k = 2 \<or> k = 3 \<or> k = 4" by auto
    with ne k(3) have k4: "k = 4" by auto
    with k(4)[rule_format, of 2] have "?T ! 2 \<noteq> differentiate_wrt_this" by simp
    then show False by simp
  qed
  with k(2) have a: "index_of_differentiation ?T = 2" by simp
  have "differentiate_wrt_this \<notin> set [mfem_Vector, other_type]" by simp
  with inst2 have b: "index_of_differentiation [mfem_Vector, other_type] = - 1" by blast
  have "1 < count_list (map type_of_argument [differentiate_wrt [1], differentiate_wrt [2]])
              differentiate_wrt_this"
    by simp
  with inst1 have c: "\<exists>msg. operator_paren_variadic [differentiate_wrt [1], differentiate_wrt [2]]
      constructed = Inl (CompileError msg)"
    by blast
  have i0: "index_of_differentiation [differentiate_wrt_this] = 0"
    by (simp add: index_of_differentiation_def index_of_differentiation_loop.simps)
  have "[differentiate_wrt [1]] \<noteq> [] \<and>
        count_list (map type_of_argument [differentiate_wrt [1]]) differentiate_wrt_this \<le> 1 \<and>
        length [differentiate_wrt [1]] = num_trial_spaces (constructed :: unit Functional)"
    by (simp add: num_trial_spaces_constructed)
  with inst2 have d: "operator_paren_variadic [differentiate_wrt [1]] constructed =
     operator_paren (index_of_differentiation (map type_of_argument [differentiate_wrt [1]]))
        (map to_Vector [differentiate_wrt [1]]) constructed"
    by blast
  from a b c d i0 show ?thesis by simp
qed

section \<open>Adding a domain integral\<close>

text \<open>
  Claim C4. For a mesh with no element, \<open>AddDomainIntegral\<close> returns without an error
  and leaves the Functional as it was: no Integral is registered, so every later
  evaluation and differentiation is the one of the Functional before the call. (The
  indices of \<open>DependsOn\<close> are indices of trial spaces: the call compiles.)
\<close>

theorem AddDomainIntegral_zero_elements:
  "GetNE domain = 0 \<Longrightarrow> \<forall>a \<in> set args. a < num_trial_spaces f \<Longrightarrow>
   AddDomainIntegral geom_dim args integrand domain qpt_data f = Inr f"
  by (auto simp: AddDomainIntegral_def)

text \<open>A volume integral over the empty mesh of dimension two: no error, no Integral.\<close>

theorem AddDomainIntegral_zero_elements_witness:
  "GetNE empty_mesh = 0 \<and> (0::nat) < num_trial_spaces constructed \<and>
   AddDomainIntegral 3 [0] example_kernels empty_mesh NoQData constructed = Inr constructed \<and>
   integrals constructed = []"
proof -
  have h1: "GetNE empty_mesh = 0" by (simp add: GetNE_def empty_mesh_def)
  have h2: "\<forall>a \<in> set [0::nat]. a < num_trial_spaces constructed"
    by (simp add: num_trial_spaces_constructed)
  have "integrals constructed = []" by (simp add: constructed_def Functional_ctor_def)
  with h1 h2 AddDomainIntegral_zero_elements[OF h1 h2, of 3 example_kernels NoQData]
  show ?thesis by simp
qed

text \<open>
  Claim C5. For a mesh with at least one element (and a call that compiles), a
  declared dimension that is not the dimension of the mesh, or a point, wedge or pyramid
  among the elements, makes \<open>AddDomainIntegral\<close> signal a configuration error at that
  call; the call returns no Functional, so no Integral is registered.
\<close>

theorem AddDomainIntegral_rejects_at_call:
  "GetNE domain \<noteq> 0 \<Longrightarrow> \<forall>a \<in> set args. a < num_trial_spaces f \<Longrightarrow>
   geom_dim \<noteq> Dimension domain \<or>
     (\<exists>t \<in> set (element_types domain). t = POINT \<or> t = WEDGE \<or> t = PYRAMID) \<Longrightarrow>
   \<exists>msg. AddDomainIntegral geom_dim args integrand domain qpt_data f =
          Inl (ConfigurationError msg)"
  unfolding AddDomainIntegral_def contains_unsupported_elements_iff
  by (auto simp: not_le)

text \<open>A hexahedron and a wedge, declared dimension three; two quadrilaterals, declared three.\<close>

theorem AddDomainIntegral_rejects_at_call_witness:
  "GetNE wedge_mesh = 2 \<and> Dimension wedge_mesh = 3 \<and> WEDGE \<in> set (element_types wedge_mesh) \<and>
   (\<exists>msg. AddDomainIntegral 3 [0] example_kernels wedge_mesh NoQData constructed =
          Inl (ConfigurationError msg)) \<and>
   Dimension quad_mesh = 2 \<and>
   (\<exists>msg. AddDomainIntegral 3 [0] example_kernels quad_mesh NoQData constructed =
          Inl (ConfigurationError msg))"
proof -
  have h1: "GetNE wedge_mesh \<noteq> 0" "GetNE quad_mesh \<noteq> 0"
    by (simp_all add: GetNE_def wedge_mesh_def quad_mesh_def)
  have h2: "\<forall>a \<in> set [0::nat]. a < num_trial_spaces constructed"
    by (simp add: num_trial_spaces_constructed)
  have h3: "3 \<noteq> Dimension wedge_mesh \<or>
     (\<exists>t \<in> set (element_types wedge_mesh). t = POINT \<or> t = WEDGE \<or> t = PYRAMID)"
    by (simp add: wedge_mesh_def)
  have h4: "3 \<noteq> Dimension quad_mesh \<or>
     (\<exists>t \<in> set (element_types quad_mesh). t = POINT \<or> t = WEDGE \<or> t = PYRAMID)"
    by (simp add: quad_mesh_def)
  have "GetNE wedge_mesh = 2 \<and> Dimension wedge_mesh = 3 \<and>
        WEDGE \<in> set (element_types wedge_mesh) \<and> Dimension quad_mesh = 2"
    by (simp add: GetNE_def wedge_mesh_def quad_mesh_def)
  with AddDomainIntegral_rejects_at_call[OF h1(1) h2 h3, of example_kernels NoQData]
       AddDomainIntegral_rejects_at_call[OF h1(2) h2 h4, of example_kernels NoQData]
  show ?thesis by simp
qed

section \<open>The quadrature order\<close>

text \<open>
  Claim C7. The quadrature order \<open>Q\<close> of a Functional is the largest polynomial order
  among its test space and its trial spaces, plus one. A constructed Functional has no
  Integral, and \<open>AddDomainIntegral\<close>, which has no parameter for the order, keeps the
  spaces and only appends Integrals of that order.
\<close>

theorem quadrature_order_max_plus_one:
  "Q t ts = Max (set (order t # map order ts)) + 1 \<and>
   integrals (Functional_ctor t ts test_fes trial_fes :: 's Functional) = [] \<and>
   (AddDomainIntegral geom_dim args integrand domain qpt_data (f :: 's Functional) = Inr f' \<longrightarrow>
      test f' = test f \<and> trials f' = trials f \<and>
      (\<exists>new. integrals f' = integrals f @ new \<and>
         (\<forall>I \<in> set new. quadrature_order I =
            Max (set (order (test f) # map order (trials f))) + 1)))"
proof (intro conjI impI)
  show "Q t ts = Max (set (order t # map order ts)) + 1" by (rule Q_is_Max)
  show "integrals (Functional_ctor t ts test_fes trial_fes :: 's Functional) = []"
    by (simp add: Functional_ctor_def)
next
  assume a: "AddDomainIntegral geom_dim args integrand domain qpt_data f = Inr f'"
  show "test f' = test f" using a by (auto simp: AddDomainIntegral_def split: if_splits)
  show "trials f' = trials f" using a by (auto simp: AddDomainIntegral_def split: if_splits)
  show "\<exists>new. integrals f' = integrals f @ new \<and>
         (\<forall>I \<in> set new. quadrature_order I =
            Max (set (order (test f) # map order (trials f))) + 1)"
    using a Q_is_Max[of "test f" "trials f"]
    by (auto simp: AddDomainIntegral_def MakeDomainIntegral_def split: if_splits)
qed

lemma contains_unsupported_elements_quad_mesh: "\<not> contains_unsupported_elements quad_mesh"
  unfolding contains_unsupported_elements_iff by (simp add: quad_mesh_def)

text \<open>
  Test space of order 2, trial spaces of orders 1 and 3: the area integral over two
  quadrilaterals is registered with quadrature order 4.
\<close>

theorem quadrature_order_max_plus_one_witness:
  "Q (example_tag\<lparr>order := 2\<rparr>) [example_tag, example_tag\<lparr>order := 3\<rparr>] = 4 \<and>
   (\<exists>f'. AddDomainIntegral 2 [1] example_kernels quad_mesh NoQData
           (Functional_ctor (example_tag\<lparr>order := 2\<rparr>) [example_tag, example_tag\<lparr>order := 3\<rparr>]
              example_fes [example_fes, example_fes]) = Inr f' \<and>
         map quadrature_order (integrals f') = [4])"
proof -
  let ?t = "example_tag\<lparr>order := 2\<rparr>"
  let ?ts = "[example_tag, example_tag\<lparr>order := 3\<rparr>]"
  let ?f = "Functional_ctor ?t ?ts example_fes [example_fes, example_fes] :: unit Functional"
  have qm: "GetNE quad_mesh = 2" "Dimension quad_mesh = 2"
    by (simp_all add: GetNE_def quad_mesh_def)
  have eval: "\<exists>f'. AddDomainIntegral 2 [1] example_kernels quad_mesh NoQData ?f = Inr f'"
    by (simp add: AddDomainIntegral_def contains_unsupported_elements_quad_mesh
        num_trial_spaces_def Functional_ctor_def qm)
  then obtain f' where f': "AddDomainIntegral 2 [1] example_kernels quad_mesh NoQData ?f = Inr f'"
    by blast
  note inst = quadrature_order_max_plus_one
      [of ?t ?ts example_fes "[example_fes, example_fes]" 2 "[1]" example_kernels quad_mesh NoQData ?f f']
  have q: "Q ?t ?ts = 4" using inst by (simp add: example_tag_def)
  from inst f' obtain new where new: "integrals f' = integrals ?f @ new"
      "\<forall>I \<in> set new. quadrature_order I = Max (set (order (test ?f) # map order (trials ?f))) + 1"
    by blast
  have len: "length (integrals f') = 1"
    using f' by (auto simp: AddDomainIntegral_def contains_unsupported_elements_quad_mesh
        Functional_ctor_def qm split: if_splits)
  have nil: "integrals ?f = []" using inst by blast
  have mx: "Max (set (order (test ?f) # map order (trials ?f))) + 1 = 4"
    by (simp add: Functional_ctor_def example_tag_def)
  from new nil len mx have "map quadrature_order (integrals f') = [4]"
    by (cases new) auto
  with q f' show ?thesis by (intro conjI exI[of _ f']) simp_all
qed

section \<open>Gather and ScatterAdd are adjoint\<close>

lemma dot_Nil [simp]: "dot [] y = 0" "dot x [] = 0"
  by (simp_all add: dot_def)

lemma dot_Cons [simp]: "dot (a # x) (b # y) = a * b + dot x y"
  by (simp add: dot_def)

lemma dot_replicate_zero [simp]: "dot v (replicate n 0) = 0"
proof (induction v arbitrary: n)
  case Nil
  show ?case by simp
next
  case (Cons a v)
  show ?case by (cases n) (simp_all add: Cons.IH)
qed

lemma dot_list_update:
  "i < length v \<Longrightarrow> i < length out \<Longrightarrow>
   dot v (out[i := out ! i + c]) = dot v out + v ! i * c"
proof (induction out arbitrary: v i)
  case Nil
  then show ?case by simp
next
  case (Cons y out)
  from Cons.prems obtain x v' where v: "v = x # v'" by (cases v) auto
  show ?case
  proof (cases i)
    case 0
    with v show ?thesis by (simp add: algebra_simps)
  next
    case (Suc k)
    with Cons.prems v have "k < length v'" "k < length out" by simp_all
    from Cons.IH[OF this] Suc v show ?thesis by simp
  qed
qed

lemma dot_ScatterAdd_loop:
  "\<forall>(i, s) \<in> set ds. i < length v \<Longrightarrow> length out = length v \<Longrightarrow>
   dot v (ScatterAdd_loop ds w out) = dot v out + dot (map (\<lambda>(i, s). s * v ! i) ds) w"
proof (induction ds w out rule: ScatterAdd_loop.induct)
  case (1 E_vector L_vector)
  show ?case by simp
next
  case (2 i s ds L_vector)
  show ?case by simp
next
  case (3 i s ds x E_vector L_vector)
  let ?L = "L_vector[i := L_vector ! i + s * x]"
  have i: "i < length v" "i < length L_vector" using "3.prems" by simp_all
  have "dot v (ScatterAdd_loop ds E_vector ?L) =
        dot v ?L + dot (map (\<lambda>(i, s). s * v ! i) ds) E_vector"
    using "3.prems" by (intro "3.IH") simp_all
  also have "dot v ?L = dot v L_vector + v ! i * (s * x)"
    by (rule dot_list_update[OF i])
  finally show ?case by (simp add: algebra_simps)
qed

lemma length_ScatterAdd_loop [simp]: "length (ScatterAdd_loop ds w out) = length out"
  by (induction ds w out rule: ScatterAdd_loop.induct) simp_all

lemma nth_ScatterAdd_loop:
  "j < length out \<Longrightarrow>
   ScatterAdd_loop ds w out ! j =
   out ! j + sum_list (map (\<lambda>((i, s), x). if i = j then s * x else 0) (zip ds w))"
proof (induction ds w out rule: ScatterAdd_loop.induct)
  case (1 E_vector L_vector)
  show ?case by simp
next
  case (2 i s ds L_vector)
  show ?case by simp
next
  case (3 i s ds x E_vector L_vector)
  let ?L = "L_vector[i := L_vector ! i + s * x]"
  have "ScatterAdd_loop ds E_vector ?L ! j =
        ?L ! j + sum_list (map (\<lambda>((i, s), x). if i = j then s * x else 0) (zip ds E_vector))"
    using "3.prems" by (intro "3.IH") simp
  moreover have "?L ! j = L_vector ! j + (if i = j then s * x else 0)"
    using "3.prems" by (simp add: nth_list_update)
  ultimately show ?case by simp
qed

text \<open>
  Claim C3. For a local vector \<open>v\<close> and an element vector \<open>w\<close>, the inner product of
  \<open>Gather v\<close> with \<open>w\<close> is the inner product of \<open>v\<close> with the result of \<open>ScatterAdd w\<close>
  into the zero local vector: the two are transposes of one another. Entry \<open>j\<close> of that
  result is the sum of the signed contributions of all element dofs that are the local
  dof \<open>j\<close>, whichever elements they belong to.
\<close>

theorem Gather_ScatterAdd_adjoint:
  assumes "length v = lsize G"
    and "\<forall>element \<in> set (dof_info G). \<forall>(i, s) \<in> set element. i < lsize G"
  shows "dot (Gather G v) w = dot v (ScatterAdd G w (replicate (lsize G) 0)) \<and>
         (\<forall>j < lsize G. ScatterAdd G w (replicate (lsize G) 0) ! j =
            sum_list (map (\<lambda>((i, s), x). if i = j then s * x else 0)
                          (zip (concat (dof_info G)) w)))"
proof
  have idx: "\<forall>(i, s) \<in> set (concat (dof_info G)). i < length v"
    using assms by auto
  have "dot v (ScatterAdd_loop (concat (dof_info G)) w (replicate (lsize G) 0)) =
        dot v (replicate (lsize G) 0) +
        dot (map (\<lambda>(i, s). s * v ! i) (concat (dof_info G))) w"
    using idx assms(1) by (intro dot_ScatterAdd_loop) simp_all
  then show "dot (Gather G v) w = dot v (ScatterAdd G w (replicate (lsize G) 0))"
    by (simp add: Gather_def ScatterAdd_def)
next
  show "\<forall>j < lsize G. ScatterAdd G w (replicate (lsize G) 0) ! j =
            sum_list (map (\<lambda>((i, s), x). if i = j then s * x else 0)
                          (zip (concat (dof_info G)) w))"
    by (simp add: ScatterAdd_def nth_ScatterAdd_loop)
qed

text \<open>
  Two segments that share the local dof 1, the second with the opposite orientation
  there.
\<close>

theorem Gather_ScatterAdd_adjoint_witness:
  "Gather two_segments [1, 2, 3] = [1, 2, - 2, 3] \<and>
   ScatterAdd two_segments [10, 20, 30, 40] (replicate (lsize two_segments) 0) = [10, - 10, 40] \<and>
   dot (Gather two_segments [1, 2, 3]) [10, 20, 30, 40] = 110 \<and>
   dot [1, 2, 3] (ScatterAdd two_segments [10, 20, 30, 40] (replicate (lsize two_segments) 0)) = 110"
proof -
  have h1: "length [1, 2, 3 :: real] = lsize two_segments" by (simp add: two_segments_def)
  have h2: "\<forall>element \<in> set (dof_info two_segments). \<forall>(i, s) \<in> set element. i < lsize two_segments"
    by (simp add: two_segments_def)
  have g: "Gather two_segments [1, 2, 3] = [1, 2, - 2, 3]"
    by (simp add: Gather_def two_segments_def)
  have s: "ScatterAdd two_segments [10, 20, 30, 40] (replicate (lsize two_segments) 0) = [10, - 10, 40]"
    by (simp add: ScatterAdd_def two_segments_def numeral_3_eq_3)
  from Gather_ScatterAdd_adjoint[OF h1 h2, of "[10, 20, 30, 40]"] g s
  show ?thesis by simp
qed

section \<open>The loops of operator()\<close>

lemma gather_loop_frame:
  "gather_loop t active already_computed f = (already_computed', f') \<Longrightarrow>
   f' = f\<lparr>block_input_E := block_input_E f', gathers := gathers f'\<rparr>"
proof (induction active arbitrary: already_computed f)
  case Nil
  then show ?case by simp
next
  case (Cons i rest)
  show ?case
  proof (cases "already_computed t ! i")
    case True
    with Cons.prems have "gather_loop t rest already_computed f = (already_computed', f')"
      by simp
    then show ?thesis by (rule Cons.IH)
  next
    case False
    let ?f = "f\<lparr>block_input_E := (block_input_E f)
                (t := (block_input_E f t)[i := Gather (G_trial f ! i) (input_L f ! i)]),
             gathers := gathers f @ [(t, i)]\<rparr>"
    from False Cons.prems
    have "gather_loop t rest (already_computed(t := (already_computed t)[i := True])) ?f =
          (already_computed', f')"
      by simp
    then have "f' = ?f\<lparr>block_input_E := block_input_E f', gathers := gathers f'\<rparr>"
      by (rule Cons.IH)
    then show ?thesis by simp
  qed
qed

lemma integrals_loop_frame:
  "integrals_loop wrt Is already_computed f = (Is', f') \<Longrightarrow>
   f' = f\<lparr>block_input_E := block_input_E f', gathers := gathers f',
          block_output_E := block_output_E f', output_L := output_L f'\<rparr>"
proof (induction Is arbitrary: already_computed f Is' f')
  case Nil
  then show ?case by simp
next
  case (Cons I rest)
  obtain ac1 f1 where g: "gather_loop (type I) (active_trial_spaces I) already_computed f = (ac1, f1)"
    by (cases "gather_loop (type I) (active_trial_spaces I) already_computed f")
  obtain output_E I' where m:
    "Integral_Mult I (block_input_E f1 (type I)) wrt (update_qdata f1) = (output_E, I')"
    by (cases "Integral_Mult I (block_input_E f1 (type I)) wrt (update_qdata f1)")
  let ?f3 = "f1\<lparr>block_output_E := (block_output_E f1)(type I := output_E),
                output_L := ScatterAdd (G_test f1) output_E (output_L f1)\<rparr>"
  obtain rest' f4 where r: "integrals_loop wrt rest ac1 ?f3 = (rest', f4)"
    by (cases "integrals_loop wrt rest ac1 ?f3")
  from Cons.prems g m r have res: "Is' = I' # rest'" "f' = f4" by (simp_all add: Let_def)
  from gather_loop_frame[OF g]
  have f1: "f1 = f\<lparr>block_input_E := block_input_E f1, gathers := gathers f1\<rparr>" .
  from Cons.IH[OF r]
  have "f4 = ?f3\<lparr>block_input_E := block_input_E f4, gathers := gathers f4,
          block_output_E := block_output_E f4, output_L := output_L f4\<rparr>" .
  then have "f4 = f1\<lparr>block_input_E := block_input_E f4, gathers := gathers f4,
          block_output_E := block_output_E f4, output_L := output_L f4\<rparr>"
    by simp
  then have "f4 = (f\<lparr>block_input_E := block_input_E f1, gathers := gathers f1\<rparr>)
         \<lparr>block_input_E := block_input_E f4, gathers := gathers f4,
          block_output_E := block_output_E f4, output_L := output_L f4\<rparr>"
    using f1 by simp
  then show ?case using res by simp
qed

lemma integrals_loop_grad:
  assumes "integrals_loop wrt Is already_computed f = (Is', f')"
  shows "grad f' = grad f" and "update_qdata f' = update_qdata f"
proof -
  note eq = integrals_loop_frame[OF assms]
  show "grad f' = grad f" by (subst eq) simp
  show "update_qdata f' = update_qdata f" by (subst eq) simp
qed

lemma operator_paren_needs_gradient:
  assumes "grad f = []"
  shows "operator_paren (int k) args f \<noteq> Inr r"
proof (cases "P_test f")
  case None
  then show ?thesis by (simp add: operator_paren_def Let_def list_ex_iff Option.is_none_def)
next
  case (Some P)
  let ?n = "num_trial_spaces f"
  let ?f1 = "f\<lparr>input_L := map (\<lambda>i. Mult (the (P_trial f ! i)) (args ! i)) [0..<?n],
                      output_L := map (\<lambda>x. 0) (output_L f),
                      gathers := []\<rparr>"
  obtain Is' f2 where l: "integrals_loop (int k) (integrals ?f1) (\<lambda>t. replicate ?n False) ?f1 = (Is', f2)"
    by (cases "integrals_loop (int k) (integrals ?f1) (\<lambda>t. replicate ?n False) ?f1")
  have "grad f2 = []" using integrals_loop_grad(1)[OF l] assms by simp
  with Some l show ?thesis by (simp add: operator_paren_def Let_def list_ex_iff Option.is_none_def)
qed

section \<open>The gradient that operator() returns\<close>

lemma AddDomainIntegral_grad:
  "AddDomainIntegral geom_dim a integrand domain qpt_data f = Inr f' \<Longrightarrow> grad f' = grad f"
  by (auto simp: AddDomainIntegral_def split: if_splits)

text \<open>
  Claim C2 says that a Gradient for every trial argument exists after construction, so
  that \<open>operator()\<close> with a differentiated argument \<open>i\<close> returns the residual together
  with \<open>grad_[i]\<close>. The code does not do this. The statement that creates the Gradients
  stands in the disabled part of the constructor: the list \<open>grad\<close> is empty after
  construction, \<open>AddDomainIntegral\<close> does not change it, and with an empty list
  \<open>operator()\<close> returns no pair for any index \<open>k \<ge> 0\<close> of differentiation.
\<close>

theorem no_gradient_after_construction:
  "grad (Functional_ctor t ts test_fes trial_fes :: 's Functional) = [] \<and>
   (AddDomainIntegral geom_dim a integrand domain qpt_data (f :: 's Functional) = Inr f' \<longrightarrow>
      grad f' = grad f) \<and>
   (grad f = [] \<longrightarrow> (\<forall>r. operator_paren (int k) args f \<noteq> Inr r))"
proof (intro conjI impI allI)
  show "grad (Functional_ctor t ts test_fes trial_fes :: 's Functional) = []"
    by (simp add: Functional_ctor_def)
next
  assume "AddDomainIntegral geom_dim a integrand domain qpt_data f = Inr f'"
  then show "grad f' = grad f" by (rule AddDomainIntegral_grad)
next
  fix r assume "grad f = []"
  then show "operator_paren (int k) args f \<noteq> Inr r" by (rule operator_paren_needs_gradient)
qed

text \<open>
  On the constructed Functional the call fails at the unset prolongation; with the
  buffers sized and the prolongations set it fails at \<open>grad_[0]\<close>; with the Gradient in
  place it returns the residual and that Gradient.
\<close>

theorem no_gradient_after_construction_witness:
  "grad constructed = [] \<and>
   operator_paren_variadic [differentiate_wrt [1]] constructed = Inl NullPointer \<and>
   (\<forall>r. operator_paren 0 [[1]] constructed \<noteq> Inr r) \<and>
   operator_paren 0 [[7]] ((one_dof_functional example_kernels NoQData)\<lparr>grad := []\<rparr>) =
     Inl OutOfRange \<and>
   (\<exists>f'. operator_paren 0 [[7]] (one_dof_functional example_kernels NoQData) =
            Inr (f', [7], Some one_dof_gradient))"
proof -
  note inst = no_gradient_after_construction
    [of example_tag "[example_tag]" example_fes "[example_fes]" 2 "[0]" example_kernels
        quad_mesh NoQData constructed constructed 0 "[[1]]", folded constructed_def]
  have a: "grad constructed = []" using inst by blast
  with inst have b: "\<forall>r. operator_paren 0 [[1]] constructed \<noteq> Inr r" by simp
  have c: "operator_paren_variadic [differentiate_wrt [1]] constructed = Inl NullPointer"
    by (simp add: operator_paren_variadic_def Let_def index_of_differentiation_def
        index_of_differentiation_loop.simps operator_paren_def constructed_def
        Functional_ctor_def num_trial_spaces_def list_ex_iff Option.is_none_def)
  have d: "operator_paren 0 [[7]] ((one_dof_functional example_kernels NoQData)\<lparr>grad := []\<rparr>) =
     Inl OutOfRange"
    by (simp add: operator_paren_def Let_def one_dof_functional_def num_trial_spaces_def
     subscripts_in_range_def MakeDomainIntegral_def Integral_Mult_def example_kernels_def
     identity_operator_def list_ex_iff Option.is_none_def Mult_def MultTranspose_def Gather_def
     ScatterAdd_def one_dof_def NoQData_def)
  have e: "\<exists>f'. operator_paren 0 [[7]] (one_dof_functional example_kernels NoQData) =
            Inr (f', [7], Some one_dof_gradient)"
    by (simp add: operator_paren_def Let_def one_dof_functional_def num_trial_spaces_def
     subscripts_in_range_def MakeDomainIntegral_def Integral_Mult_def example_kernels_def
     identity_operator_def list_ex_iff Option.is_none_def Mult_def MultTranspose_def Gather_def
     ScatterAdd_def one_dof_def NoQData_def)
  from a b c d e show ?thesis by (intro conjI)
qed

section \<open>Evaluation of a constructed Functional\<close>

lemma Functional_ctor_P_trial:
  "P_trial (Functional_ctor t ts test_fes trial_fes) = replicate (length ts) None"
  "num_trial_spaces (Functional_ctor t ts test_fes trial_fes) = length ts"
  by (simp_all add: Functional_ctor_def num_trial_spaces_def)

lemma AddDomainIntegral_P_trial:
  assumes "AddDomainIntegral geom_dim a integrand domain qpt_data f = Inr f'"
  shows "P_trial f' = P_trial f" and "num_trial_spaces f' = num_trial_spaces f"
  using assms by (auto simp: AddDomainIntegral_def num_trial_spaces_def split: if_splits)

lemma operator_paren_unset_prolongation:
  assumes "P_trial f = replicate (num_trial_spaces f) None" and "0 < num_trial_spaces f"
  shows "operator_paren wrt args f =
         (if length args < num_trial_spaces f then Inl OutOfRange else Inl NullPointer)"
proof -
  have "list_ex Option.is_none (take (num_trial_spaces f) (P_trial f))"
    using assms by (cases "num_trial_spaces f") (simp_all add: Option.is_none_def)
  then show ?thesis by (simp add: operator_paren_def Let_def)
qed

lemma ActionOfGradient_unset_prolongation:
  assumes "P_trial f = replicate (num_trial_spaces f) None"
  shows "ActionOfGradient input_T which f =
         (if num_trial_spaces f \<le> which then Inl OutOfRange else Inl NullPointer)"
  using assms by (simp add: ActionOfGradient_def)

lemma constructed_with_integral:
  "AddDomainIntegral 2 [0] example_kernels quad_mesh NoQData constructed =
     Inr (constructed\<lparr>integrals :=
            [MakeDomainIntegral (example_tag, [example_tag]) 2 2 quad_mesh example_kernels
               NoQData [0]]\<rparr>)"
proof -
  have qm: "GetNE quad_mesh = 2" "Dimension quad_mesh = 2"
    by (simp_all add: GetNE_def quad_mesh_def)
  have q: "Q example_tag [example_tag] = 2" by (simp add: Q_def example_tag_def)
  show ?thesis
    by (simp add: AddDomainIntegral_def contains_unsupported_elements_quad_mesh
        num_trial_spaces_constructed qm)
       (simp add: constructed_def Functional_ctor_def q)
qed

text \<open>
  Claim C6 says that within one call of \<open>operator()\<close> every pair of an integral type and
  a trial space that a registered Integral depends on is gathered exactly once, and that
  the residual is the one of gathering for every Integral. The code does not do this
  on a Functional it constructs. The constructor leaves the prolongations of the trial
  spaces unset, \<open>AddDomainIntegral\<close> does not set them, and \<open>operator()\<close> calls through
  them before its first Gather: with at least one trial space the call ends there, with
  no gather and no residual.
\<close>

theorem evaluation_fails_before_first_gather:
  "P_trial (Functional_ctor t ts test_fes trial_fes :: 's Functional) = replicate (length ts) None \<and>
   num_trial_spaces (Functional_ctor t ts test_fes trial_fes :: 's Functional) = length ts \<and>
   (AddDomainIntegral geom_dim a integrand domain qpt_data (f :: 's Functional) = Inr f' \<longrightarrow>
      P_trial f' = P_trial f \<and> num_trial_spaces f' = num_trial_spaces f) \<and>
   (P_trial f = replicate (num_trial_spaces f) None \<and> 0 < num_trial_spaces f \<longrightarrow>
      operator_paren wrt args f =
        (if length args < num_trial_spaces f then Inl OutOfRange else Inl NullPointer))"
proof (intro conjI impI)
  show "P_trial (Functional_ctor t ts test_fes trial_fes :: 's Functional) =
        replicate (length ts) None"
    by (rule Functional_ctor_P_trial)
  show "num_trial_spaces (Functional_ctor t ts test_fes trial_fes :: 's Functional) = length ts"
    by (rule Functional_ctor_P_trial)
next
  assume "AddDomainIntegral geom_dim a integrand domain qpt_data f = Inr f'"
  then show "P_trial f' = P_trial f" by (rule AddDomainIntegral_P_trial)
next
  assume "AddDomainIntegral geom_dim a integrand domain qpt_data f = Inr f'"
  then show "num_trial_spaces f' = num_trial_spaces f" by (rule AddDomainIntegral_P_trial)
next
  assume "P_trial f = replicate (num_trial_spaces f) None \<and> 0 < num_trial_spaces f"
  then show "operator_paren wrt args f =
        (if length args < num_trial_spaces f then Inl OutOfRange else Inl NullPointer)"
    by (simp add: operator_paren_unset_prolongation)
qed

text \<open>
  A constructed Functional with one trial space and one area integral over two
  quadrilaterals that depends on that space: the evaluation ends at the unset
  prolongation.
\<close>

theorem evaluation_fails_before_first_gather_witness:
  "\<exists>f1. AddDomainIntegral 2 [0] example_kernels quad_mesh NoQData constructed = Inr f1 \<and>
     map active_trial_spaces (integrals f1) = [[0]] \<and>
     operator_paren (- 1) [[1]] f1 = Inl NullPointer \<and>
     operator_paren_variadic [plain_Vector [1]] f1 = Inl NullPointer"
proof -
  let ?f1 = "constructed\<lparr>integrals :=
            [MakeDomainIntegral (example_tag, [example_tag]) 2 2 quad_mesh example_kernels
               NoQData [0]]\<rparr>"
  note add = constructed_with_integral
  note instA = evaluation_fails_before_first_gather
    [where t = example_tag and ts = "[example_tag]" and test_fes = example_fes
       and trial_fes = "[example_fes]" and geom_dim = 2 and a = "[0]"
       and integrand = example_kernels and domain = quad_mesh and qpt_data = NoQData
       and f = constructed and f' = ?f1, folded constructed_def]
  note instB = evaluation_fails_before_first_gather
    [where f = ?f1 and wrt = "- 1" and args = "[[1]]"]
  from instA add have p: "P_trial ?f1 = replicate (num_trial_spaces ?f1) None"
    and n: "num_trial_spaces ?f1 = 1"
    by simp_all
  from instB p n have run: "operator_paren (- 1) [[1]] ?f1 = Inl NullPointer" by simp
  have idx: "index_of_differentiation [mfem_Vector] = - 1"
    by (simp add: index_of_differentiation_def index_of_differentiation_loop.simps)
  have var: "operator_paren_variadic [plain_Vector [1]] ?f1 = Inl NullPointer"
    using run n idx by (simp add: operator_paren_variadic_def Let_def)
  have act: "map active_trial_spaces (integrals ?f1) = [[0]]"
    by (simp add: MakeDomainIntegral_def)
  from add act run var show ?thesis by (intro exI[of _ ?f1] conjI)
qed

section \<open>The assembled gradient\<close>

text \<open>
  Claim C1 says that the matrix \<open>Gradient::assemble\<close> returns, applied to a vector, is
  the action of the gradient on that vector. The code does not do this. On a Functional
  it constructs, \<open>ActionOfGradient\<close> calls through the unset prolongation of the trial
  space and has no result, and \<open>AddDomainIntegral\<close> changes neither the prolongations nor
  the empty list of Gradients, so there is no Gradient to assemble. The loops of
  \<open>assemble\<close> that add the element Jacobians are commented out as well: what it returns
  does not depend on the registered integrals.
\<close>

theorem no_gradient_action_to_compare:
  "(P_trial f = replicate (num_trial_spaces f) None \<longrightarrow>
      ActionOfGradient input_T which f =
        (if num_trial_spaces f \<le> which then Inl OutOfRange else Inl NullPointer)) \<and>
   (AddDomainIntegral geom_dim a integrand domain qpt_data f = Inr f' \<longrightarrow>
      P_trial f' = P_trial f \<and> num_trial_spaces f' = num_trial_spaces f \<and> grad f' = grad f) \<and>
   assemble g (form\<lparr>integrals := Is\<rparr>) = assemble g form"
proof (intro conjI impI)
  assume "P_trial f = replicate (num_trial_spaces f) None"
  then show "ActionOfGradient input_T which f =
        (if num_trial_spaces f \<le> which then Inl OutOfRange else Inl NullPointer)"
    by (rule ActionOfGradient_unset_prolongation)
next
  assume a: "AddDomainIntegral geom_dim a integrand domain qpt_data f = Inr f'"
  show "P_trial f' = P_trial f" using a by (rule AddDomainIntegral_P_trial)
  show "num_trial_spaces f' = num_trial_spaces f" using a by (rule AddDomainIntegral_P_trial)
  show "grad f' = grad f" using a by (rule AddDomainIntegral_grad)
next
  show "assemble g (form\<lparr>integrals := Is\<rparr>) = assemble g form"
    by (simp add: assemble_def)
qed

text \<open>
  The same Functional: one integral is registered, the list of Gradients is empty, and
  the action of the gradient on [1] ends at the unset prolongation.
\<close>

theorem no_gradient_action_to_compare_witness:
  "\<exists>f1. AddDomainIntegral 2 [0] example_kernels quad_mesh NoQData constructed = Inr f1 \<and>
     length (integrals f1) = 1 \<and>
     grad f1 = [] \<and>
     ActionOfGradient [1] 0 f1 = Inl NullPointer"
proof -
  let ?f1 = "constructed\<lparr>integrals :=
            [MakeDomainIntegral (example_tag, [example_tag]) 2 2 quad_mesh example_kernels
               NoQData [0]]\<rparr>"
  note add = constructed_with_integral
  note instA = no_gradient_action_to_compare
    [where geom_dim = 2 and a = "[0]" and integrand = example_kernels and domain = quad_mesh
       and qpt_data = NoQData and f = constructed and f' = ?f1]
  note instB = no_gradient_action_to_compare
    [where f = ?f1 and input_T = "[1]" and which = 0]
  have c1: "P_trial constructed = replicate (num_trial_spaces constructed) None"
    and c2: "num_trial_spaces constructed = 1" and c3: "grad constructed = []"
    by (simp_all add: constructed_def Functional_ctor_def num_trial_spaces_def)
  note pres = instA[THEN conjunct2, THEN conjunct1, THEN mp, OF add]
  have n: "num_trial_spaces ?f1 = num_trial_spaces constructed"
    by (rule pres[THEN conjunct2, THEN conjunct1])
  have "P_trial ?f1 = P_trial constructed" by (rule pres[THEN conjunct1])
  also have "\<dots> = replicate (num_trial_spaces constructed) None" by (rule c1)
  finally have p: "P_trial ?f1 = replicate (num_trial_spaces ?f1) None" unfolding n .
  have g: "grad ?f1 = []" using pres[THEN conjunct2, THEN conjunct2] c3 by simp
  have "ActionOfGradient [1] 0 ?f1 =
        (if num_trial_spaces ?f1 \<le> 0 then Inl OutOfRange else Inl NullPointer)"
    by (rule instB[THEN conjunct1, THEN mp, OF p])
  then have run: "ActionOfGradient [1] 0 ?f1 = Inl NullPointer" unfolding n c2 by simp
  have len: "length (integrals ?f1) = 1" by simp
  from add len g run show ?thesis by (intro exI[of _ ?f1] conjI)
qed

end
